theory Spec2Isabelle
  imports Complex_Main
begin

section \<open>Python values used by the gateway\<close>

text \<open>
  Strings are lists of 8-bit characters, read as the code points 0..255.  Case mapping and
  \<open>repr\<close> below follow CPython on exactly this range.
\<close>

text \<open>A value produced by \<open>response.json()\<close>: what Python's JSON decoder builds.\<close>

datatype json =
    JNull
  | JBool bool
  | JInt int
  | JFloat rat
  | JStr string
  | JArr "json list"
  | JObj "(string \<times> json) list"

text \<open>
  The exceptions that the handler's own expressions can raise, and the ones handed to it by
  the HTTP client.  \<open>str(e)\<close> of an interpreter exception is kept symbolic: the value names
  the operation that failed and its operand.
\<close>

datatype py_exception =
    TypeError_not_a_container json
  | TypeError_indices_must_be_integers json
  | TypeError_not_subscriptable json
  | TypeError_has_no_len json
  | KeyError json
  | IndexError json
  | AttributeError_get json
  | Raised string

text \<open>\<open>s.startswith(p)\<close>\<close>

definition startswith :: "string \<Rightarrow> string \<Rightarrow> bool" where
  "startswith s p = (take (length p) s = p)"

text \<open>\<open>s.replace(old, "")\<close>: every non-overlapping occurrence of \<open>old\<close>, left to right.\<close>

function replace_with_empty :: "string \<Rightarrow> string \<Rightarrow> string" where
  "replace_with_empty old s =
     (if old = [] then s
      else if s = [] then []
      else if startswith s old then replace_with_empty old (drop (length old) s)
      else hd s # replace_with_empty old (tl s))"
  by pat_completeness auto
termination
  by (relation "measure (\<lambda>(old, s). length s)") (auto simp: startswith_def)

declare replace_with_empty.simps [simp del]

text \<open>\<open>str.isupper\<close> and \<open>str.lower\<close> on one code point below 256.\<close>

definition is_upper :: "char \<Rightarrow> bool" where
  "is_upper c =
     (let n = (of_char c :: nat)
      in (65 \<le> n \<and> n \<le> 90) \<or> (192 \<le> n \<and> n \<le> 222 \<and> n \<noteq> 215))"

definition lower_char :: "char \<Rightarrow> char" where
  "lower_char c = (if is_upper c then char_of ((of_char c :: nat) + 32) else c)"

definition lower :: "string \<Rightarrow> string" where
  "lower s = map lower_char s"

text \<open>\<open>sub in s\<close> on strings.\<close>

fun str_contains :: "string \<Rightarrow> string \<Rightarrow> bool" where
  "str_contains sub [] = (sub = [])"
| "str_contains sub (c # cs) = (startswith (c # cs) sub \<or> str_contains sub cs)"

subsection \<open>\<open>repr\<close> of a string and of a list of strings\<close>

definition hex_digit :: "nat \<Rightarrow> char" where
  "hex_digit d = ''0123456789abcdef'' ! (d mod 16)"

definition is_printable :: "char \<Rightarrow> bool" where
  "is_printable c =
     (let n = (of_char c :: nat)
      in (32 \<le> n \<and> n < 127) \<or> (161 \<le> n \<and> n \<noteq> 173))"

definition repr_char :: "char \<Rightarrow> char \<Rightarrow> string" where
  "repr_char quote c =
     (if c = quote \<or> c = CHR 0x5C then [CHR 0x5C, c]
      else if c = CHR 0x09 then [CHR 0x5C, CHR ''t'']
      else if c = CHR 0x0A then [CHR 0x5C, CHR ''n'']
      else if c = CHR 0x0D then [CHR 0x5C, CHR ''r'']
      else if is_printable c then [c]
      else [CHR 0x5C, CHR ''x'', hex_digit ((of_char c :: nat) div 16),
            hex_digit ((of_char c :: nat) mod 16)])"

definition repr_str :: "string \<Rightarrow> string" where
  "repr_str s =
     (let quote = (if CHR 0x27 \<in> set s \<and> CHR 0x22 \<notin> set s then CHR 0x22 else CHR 0x27)
      in [quote] @ concat (map (repr_char quote) s) @ [quote])"

fun join_comma :: "string list \<Rightarrow> string" where
  "join_comma [] = []"
| "join_comma [x] = x"
| "join_comma (x # y # ys) = x @ '', '' @ join_comma (y # ys)"

definition repr_list :: "string list \<Rightarrow> string" where
  "repr_list xs = ''['' @ join_comma (map repr_str xs) @ '']''"

subsection \<open>The operations on decoded JSON that the handler uses\<close>

text \<open>\<open>k in x\<close> for a string \<open>k\<close>: key of a dict, element of a list, substring of a string.\<close>

fun py_in :: "string \<Rightarrow> json \<Rightarrow> py_exception + bool" where
  "py_in k (JObj kvs) = Inr (k \<in> set (map fst kvs))"
| "py_in k (JArr xs) = Inr (JStr k \<in> set xs)"
| "py_in k (JStr s) = Inr (str_contains k s)"
| "py_in k v = Inl (TypeError_not_a_container v)"

text \<open>\<open>x[k]\<close> for a string \<open>k\<close>.\<close>

fun subscript_str :: "json \<Rightarrow> string \<Rightarrow> py_exception + json" where
  "subscript_str (JObj kvs) k =
     (case map_of kvs k of Some v \<Rightarrow> Inr v | None \<Rightarrow> Inl (KeyError (JStr k)))"
| "subscript_str (JArr xs) k = Inl (TypeError_indices_must_be_integers (JArr xs))"
| "subscript_str (JStr s) k = Inl (TypeError_indices_must_be_integers (JStr s))"
| "subscript_str v k = Inl (TypeError_not_subscriptable v)"

text \<open>\<open>x[0]\<close>.  The keys of a decoded JSON object are strings, so \<open>0\<close> is never one.\<close>

fun subscript_zero :: "json \<Rightarrow> py_exception + json" where
  "subscript_zero (JArr []) = Inl (IndexError (JArr []))"
| "subscript_zero (JArr (x # xs)) = Inr x"
| "subscript_zero (JStr []) = Inl (IndexError (JStr []))"
| "subscript_zero (JStr (c # cs)) = Inr (JStr [c])"
| "subscript_zero (JObj kvs) = Inl (KeyError (JInt 0))"
| "subscript_zero v = Inl (TypeError_not_subscriptable v)"

text \<open>\<open>len(x)\<close>\<close>

fun py_len :: "json \<Rightarrow> py_exception + nat" where
  "py_len (JStr s) = Inr (length s)"
| "py_len (JArr xs) = Inr (length xs)"
| "py_len (JObj kvs) = Inr (length (remdups (map fst kvs)))"
| "py_len v = Inl (TypeError_has_no_len v)"

text \<open>\<open>x.get(k, default)\<close>\<close>

fun py_get :: "json \<Rightarrow> string \<Rightarrow> json \<Rightarrow> py_exception + json" where
  "py_get (JObj kvs) k d = Inr (case map_of kvs k of Some v \<Rightarrow> v | None \<Rightarrow> d)"
| "py_get v k d = Inl (AttributeError_get v)"

section \<open>The unit registry\<close>

text \<open>
  \<open>rei_agents\<close> is a Python dict: an association list with distinct keys in insertion
  order.  Assigning to a key already present keeps its position.
\<close>

type_synonym registry = "(string \<times> string) list"

fun dict_set :: "registry \<Rightarrow> string \<Rightarrow> string \<Rightarrow> registry" where
  "dict_set [] k v = [(k, v)]"
| "dict_set ((k', v') # rest) k v =
     (if k' = k then (k', v) # rest else (k', v') # dict_set rest k v)"

definition secret_prefix :: string where
  "secret_prefix = ''REI_AGENT_SECRET_''"

text \<open>The loop over \<open>os.environ.items()\<close>, started on the empty dict.\<close>

primrec load_agents :: "(string \<times> string) list \<Rightarrow> registry \<Rightarrow> registry" where
  "load_agents [] agents = agents"
| "load_agents (item # rest) agents =
     (case item of (key, val) \<Rightarrow>
        if startswith key secret_prefix \<and> val \<noteq> []
        then load_agents rest
               (dict_set agents (lower (replace_with_empty secret_prefix key)) val)
        else load_agents rest agents)"

definition rei_agents :: "(string \<times> string) list \<Rightarrow> registry" where
  "rei_agents environ = load_agents environ []"

section \<open>The chat endpoint\<close>

record query =
  "text" :: string
  token_watchlist :: "(string \<times> json) list list option"

record http_request =
  http_method :: string
  url :: string
  json_body :: json
  headers :: "(string \<times> string) list"
  timeout :: rat

text \<open>
  The response object of the HTTP client: \<open>response.json()\<close> either yields the decoded
  body or raises, with the given description.
\<close>

record http_response =
  status_code :: int
  response_text :: string
  response_json :: "string + json"

text \<open>What \<open>client.post\<close> does: it returns a response or raises.\<close>

datatype post_outcome =
    Responded http_response
  | Raises_ReadTimeout
  | Raises_other string

datatype detail = Text string | Str_of py_exception

datatype http_exception = HTTPException int detail

datatype raised =
    Raised_HTTPException http_exception
  | Raised_ReadTimeout
  | Raised_Exception py_exception

record final_response =
  content :: json
  unit_field :: string
  raw_input_length :: nat
  raw_response :: json

definition unit_not_found_detail :: "string \<Rightarrow> string list \<Rightarrow> string" where
  "unit_not_found_detail unit_id keys =
     ''REI unit '' @ [CHR 0x27] @ unit_id @ [CHR 0x27]
       @ '' not found. Available units: '' @ repr_list keys"

definition outgoing_request :: "string \<Rightarrow> string \<Rightarrow> http_request" where
  "outgoing_request secret content_text =
     \<lparr>http_method = ''POST'',
      url = ''https://api.reisearch.box/rei/agents/chat-completion'',
      json_body =
        JObj [(''messages'',
               JArr [JObj [(''role'', JStr ''user''), (''content'', JStr content_text)]])],
      headers = [(''Authorization'', ''Bearer '' @ secret),
                 (''Content-Type'', ''application/json'')],
      timeout = 3000\<rparr>"

text \<open>The extraction of \<open>content\<close> from the decoded body.\<close>

definition first_choice_content :: "json \<Rightarrow> py_exception + json" where
  "first_choice_content choices =
     (case subscript_zero choices of
        Inl e \<Rightarrow> Inl e
      | Inr first \<Rightarrow>
          (case py_get first ''message'' (JObj []) of
             Inl e \<Rightarrow> Inl e
           | Inr message \<Rightarrow> py_get message ''content'' (JStr [])))"

definition extract_content :: "json \<Rightarrow> py_exception + json" where
  "extract_content response_data =
     (case py_in ''choices'' response_data of
        Inl e \<Rightarrow> Inl e
      | Inr present \<Rightarrow>
          (if \<not> present then Inr (JStr [])
           else
             (case subscript_str response_data ''choices'' of
                Inl e \<Rightarrow> Inl e
              | Inr choices \<Rightarrow>
                  (case py_len choices of
                     Inl e \<Rightarrow> Inl e
                   | Inr n \<Rightarrow>
                       (if n > 0 then first_choice_content choices
                        else Inr (JStr []))))))"

text \<open>
  The statements after the call: the dispatch on the status code, the decoding, the
  extraction, and the summary line, whose \<open>len(content)\<close> is evaluated before the return.
\<close>

definition after_post :: "string \<Rightarrow> string \<Rightarrow> http_response \<Rightarrow> raised + final_response" where
  "after_post unit_id content_text response =
     (if status_code response = 401
        then Inl (Raised_HTTPException (HTTPException 401 (Text ''Unauthorized'')))
      else if status_code response = 404
        then Inl (Raised_HTTPException (HTTPException 404 (Text ''Agent not found'')))
      else if status_code response \<noteq> 200
        then Inl (Raised_HTTPException
                   (HTTPException (status_code response)
                      (Text (''API error: '' @ response_text response))))
      else
        (case response_json response of
           Inl description \<Rightarrow> Inl (Raised_Exception (Raised description))
         | Inr response_data \<Rightarrow>
             (case extract_content response_data of
                Inl e \<Rightarrow> Inl (Raised_Exception e)
              | Inr c \<Rightarrow>
                  (case py_len c of
                     Inl e \<Rightarrow> Inl (Raised_Exception e)
                   | Inr n \<Rightarrow>
                       Inr \<lparr>content = c, unit_field = unit_id,
                            raw_input_length = length content_text,
                            raw_response = response_data\<rparr>))))"

text \<open>The body of the \<open>try\<close>: the requests it sends, and how it ends.\<close>

definition try_body ::
  "registry \<Rightarrow> (http_request \<Rightarrow> post_outcome) \<Rightarrow> string \<Rightarrow> query
     \<Rightarrow> http_request list \<times> (raised + final_response)" where
  "try_body agents client_post unit_id q =
     (case map_of agents unit_id of
        None \<Rightarrow>
          ([], Inl (Raised_HTTPException
                     (HTTPException 404
                        (Text (unit_not_found_detail unit_id (map fst agents))))))
      | Some secret \<Rightarrow>
          (let content_text = text q;
               request = outgoing_request secret content_text
           in ([request],
               (case client_post request of
                  Raises_ReadTimeout \<Rightarrow> Inl Raised_ReadTimeout
                | Raises_other description \<Rightarrow> Inl (Raised_Exception (Raised description))
                | Responded response \<Rightarrow> after_post unit_id content_text response))))"

definition timeout_detail :: string where
  "timeout_detail =
     ''The REI API took too long to respond (over 50 minutes). Try a simpler query or check back later.''"

text \<open>The three \<open>except\<close> clauses.\<close>

fun except_clauses :: "raised \<Rightarrow> http_exception" where
  "except_clauses (Raised_HTTPException h) = h"
| "except_clauses Raised_ReadTimeout = HTTPException 504 (Text timeout_detail)"
| "except_clauses (Raised_Exception e) = HTTPException 500 (Str_of e)"

definition chat_with_specific_unit ::
  "registry \<Rightarrow> (http_request \<Rightarrow> post_outcome) \<Rightarrow> string \<Rightarrow> query
     \<Rightarrow> http_request list \<times> (http_exception + final_response)" where
  "chat_with_specific_unit agents client_post unit_id q =
     (case try_body agents client_post unit_id q of
        (sent, Inl r) \<Rightarrow> (sent, Inl (except_clauses r))
      | (sent, Inr final) \<Rightarrow> (sent, Inr final))"

section \<open>The read-only endpoints\<close>

text \<open>
  Each handler is given the module-level \<open>rei_agents\<close> and returns it with its response,
  so that what it leaves in the registry can be stated.
\<close>

record units_response =
  units :: "string list"
  count :: nat

definition list_available_units :: "registry \<Rightarrow> units_response \<times> registry" where
  "list_available_units agents =
     (\<lparr>units = map fst agents, count = length agents\<rparr>, agents)"

record health_response =
  status :: string
  units_configured :: nat

definition health_check :: "registry \<Rightarrow> health_response \<times> registry" where
  "health_check agents =
     (\<lparr>status = ''healthy'', units_configured = length agents\<rparr>, agents)"

section \<open>A stand-in for the HTTP client\<close>

text \<open>A client that ends every call the same way, whatever the request.\<close>

definition answering :: "post_outcome \<Rightarrow> http_request \<Rightarrow> post_outcome" where
  "answering outcome request = outcome"

section \<open>Properties of the registry\<close>




lemma keys_dict_set: "fst ` set (dict_set agents k v) = insert k (fst ` set agents)"
  by (induction agents k v rule: dict_set.induct) auto

lemma distinct_dict_set:
  "distinct (map fst agents) \<Longrightarrow> distinct (map fst (dict_set agents k v))"
proof (induction agents k v rule: dict_set.induct)
  case (1 k v)
  then show ?case by simp
next
  case (2 k' v' rest k v)
  have "k' \<noteq> k \<Longrightarrow> k' \<notin> fst ` set (dict_set rest k v)"
    using 2 by (simp add: keys_dict_set)
  with 2 show ?case by auto
qed



lemma distinct_load_agents:
  "distinct (map fst agents) \<Longrightarrow> distinct (map fst (load_agents environ agents))"
proof (induction environ arbitrary: agents)
  case Nil
  then show ?case by simp
next
  case (Cons item rest)
  obtain key val where item: "item = (key, val)" by (cases item)
  show ?case
  proof (cases "startswith key secret_prefix \<and> val \<noteq> []")
    case True
    then show ?thesis
      using Cons.IH[OF distinct_dict_set[OF Cons.prems]] by (simp add: item)
  next
    case False
    then show ?thesis using Cons.IH[OF Cons.prems] by (auto simp: item)
  qed
qed


section \<open>The two paths through the chat handler\<close>

lemma map_of_None_iff: "map_of agents unit_id = None \<longleftrightarrow> unit_id \<notin> fst ` set agents"
  by (simp add: map_of_eq_None_iff)

lemma chat_unknown:
  "unit_id \<notin> fst ` set agents \<Longrightarrow>
   chat_with_specific_unit agents client_post unit_id q =
     ([], Inl (HTTPException 404 (Text (unit_not_found_detail unit_id (map fst agents)))))"
  by (simp add: chat_with_specific_unit_def try_body_def map_of_None_iff[symmetric])

lemma chat_known:
  "map_of agents unit_id = Some secret \<Longrightarrow>
   chat_with_specific_unit agents client_post unit_id q =
     ([outgoing_request secret (text q)],
      (case client_post (outgoing_request secret (text q)) of
         Raises_ReadTimeout \<Rightarrow> Inl (HTTPException 504 (Text timeout_detail))
       | Raises_other description \<Rightarrow> Inl (HTTPException 500 (Str_of (Raised description)))
       | Responded response \<Rightarrow>
           (case after_post unit_id (text q) response of
              Inl r \<Rightarrow> Inl (except_clauses r)
            | Inr final \<Rightarrow> Inr final)))"
  by (simp add: chat_with_specific_unit_def try_body_def Let_def
      split: post_outcome.splits sum.splits)

lemma after_post_Inl:
  "after_post unit_id content_text response = Inl x \<Longrightarrow>
     x = Raised_HTTPException (HTTPException 401 (Text ''Unauthorized'')) \<or>
     x = Raised_HTTPException (HTTPException 404 (Text ''Agent not found'')) \<or>
     x = Raised_HTTPException
           (HTTPException (status_code response)
              (Text (''API error: '' @ response_text response))) \<or>
     (\<exists>e. x = Raised_Exception e)"
  by (auto simp: after_post_def split: if_splits sum.splits)



lemma extract_content_obj:
  "extract_content (JObj body) =
     (case map_of body ''choices'' of
        None \<Rightarrow> Inr (JStr [])
      | Some choices \<Rightarrow>
          (case py_len choices of
             Inl e \<Rightarrow> Inl e
           | Inr n \<Rightarrow> if n > 0 then first_choice_content choices else Inr (JStr [])))"
proof (cases "map_of body ''choices''")
  case None
  then have "''choices'' \<notin> fst ` set body" by (simp add: map_of_None_iff)
  then show ?thesis using None by (simp add: extract_content_def)
next
  case (Some choices)
  then have "''choices'' \<in> fst ` set body"
    using map_of_None_iff[of body "''choices''"] by auto
  then show ?thesis using Some by (simp add: extract_content_def)
qed

lemma chat_200:
  assumes "map_of agents unit_id = Some secret"
    and "client_post (outgoing_request secret (text q)) = Responded response"
    and "status_code response = 200"
    and "response_json response = Inr response_data"
  shows "snd (chat_with_specific_unit agents client_post unit_id q) =
     (case extract_content response_data of
        Inl e \<Rightarrow> Inl (HTTPException 500 (Str_of e))
      | Inr c \<Rightarrow>
          (case py_len c of
             Inl e \<Rightarrow> Inl (HTTPException 500 (Str_of e))
           | Inr n \<Rightarrow>
               Inr \<lparr>content = c, unit_field = unit_id,
                    raw_input_length = length (text q),
                    raw_response = response_data\<rparr>))"
  using assms(2-4) by (simp add: chat_known[OF assms(1)] after_post_def split: sum.splits)



lemma rei_agents_distinct: "distinct (map fst (rei_agents environ))"
  by (simp add: rei_agents_def distinct_load_agents)


section \<open>Claims about the chat endpoint\<close>

text \<open>
  C1.  For every configured unit identifier and every text, the empty one included, the
  handler sends exactly one request: a POST to the fixed endpoint whose JSON body is
  \<open>{"messages": [{"role": "user", "content": text}]}\<close> with the text as given, and whose
  Authorization header is \<open>Bearer\<close> followed by the whole credential of that unit.  This
  holds whatever the client then does.
\<close>

theorem relay_chat_sends_one_request:
  assumes "map_of agents unit_id = Some secret"
  shows "fst (chat_with_specific_unit agents client_post unit_id q) =
     [\<lparr>http_method = ''POST'',
       url = ''https://api.reisearch.box/rei/agents/chat-completion'',
       json_body =
         JObj [(''messages'',
                JArr [JObj [(''role'', JStr ''user''), (''content'', JStr (text q))]])],
       headers = [(''Authorization'', ''Bearer '' @ secret),
                  (''Content-Type'', ''application/json'')],
       timeout = 3000\<rparr>]"
  by (simp add: chat_known[OF assms] outgoing_request_def)

theorem relay_chat_sends_one_request_witness:
  "map_of [(''alpha'', ''sk-alpha-0123456789'')] ''alpha'' = Some ''sk-alpha-0123456789'' \<and>
   fst (chat_with_specific_unit [(''alpha'', ''sk-alpha-0123456789'')]
          (answering Raises_ReadTimeout) ''alpha'' \<lparr>text = [], token_watchlist = None\<rparr>) =
     [\<lparr>http_method = ''POST'',
       url = ''https://api.reisearch.box/rei/agents/chat-completion'',
       json_body =
         JObj [(''messages'',
                JArr [JObj [(''role'', JStr ''user''), (''content'', JStr [])]])],
       headers = [(''Authorization'', ''Bearer sk-alpha-0123456789''),
                  (''Content-Type'', ''application/json'')],
       timeout = 3000\<rparr>]"
  using relay_chat_sends_one_request[of "[(''alpha'', ''sk-alpha-0123456789'')]" "''alpha''"
      "''sk-alpha-0123456789''" "answering Raises_ReadTimeout"
      "\<lparr>text = [], token_watchlist = None\<rparr>"]
  by simp

text \<open>
  C2, as stated, fails: a 200 response whose body is \<open>{"choices": null}\<close> lacks the
  \<open>choices[0].message.content\<close> shape, and the handler answers 500, because \<open>len\<close> of
  \<open>None\<close> raises.
\<close>

theorem empty_content_counterexample:
  "snd (chat_with_specific_unit [(''alpha'', ''sk-alpha-0123456789'')]
          (answering (Responded
             \<lparr>status_code = 200,
              response_text = ''{'' @ [CHR 0x22] @ ''choices'' @ [CHR 0x22] @ '': null}'',
              response_json = Inr (JObj [(''choices'', JNull)])\<rparr>))
          ''alpha'' \<lparr>text = ''hi'', token_watchlist = None\<rparr>) =
     Inl (HTTPException 500 (Str_of (TypeError_has_no_len JNull)))"
  by (simp add: chat_with_specific_unit_def try_body_def answering_def after_post_def
      extract_content_def)

text \<open>
  C2, amended.  For every 200 response whose decoded body is an object in which a key of
  the path is missing (no \<open>choices\<close>; or \<open>choices\<close> is the empty array; or the first
  choice is an object without \<open>message\<close>; or its \<open>message\<close> is an object without
  \<open>content\<close>), the handler returns a response whose content is the empty string, and
  raises nothing.
\<close>

theorem missing_key_gives_empty_content:
  assumes "map_of agents unit_id = Some secret"
    and "client_post (outgoing_request secret (text q)) = Responded response"
    and "status_code response = 200"
    and "response_json response = Inr (JObj body)"
    and "map_of body ''choices'' = None
       \<or> map_of body ''choices'' = Some (JArr [])
       \<or> (\<exists>choice others. map_of body ''choices'' = Some (JArr (JObj choice # others))
            \<and> (map_of choice ''message'' = None
               \<or> (\<exists>message. map_of choice ''message'' = Some (JObj message)
                    \<and> map_of message ''content'' = None)))"
  shows "snd (chat_with_specific_unit agents client_post unit_id q) =
     Inr \<lparr>content = JStr [], unit_field = unit_id,
          raw_input_length = length (text q), raw_response = JObj body\<rparr>"
  using assms(5) chat_200[of agents unit_id secret client_post q response "JObj body"] assms(1-4)
  by (auto simp: extract_content_obj first_choice_content_def)

theorem missing_key_gives_empty_content_witness:
  "snd (chat_with_specific_unit [(''alpha'', ''sk-alpha-0123456789'')]
          (answering (Responded
             \<lparr>status_code = 200, response_text = ''...'',
              response_json = Inr (JObj [(''id'', JInt 7)])\<rparr>))
          ''alpha'' \<lparr>text = ''hi'', token_watchlist = None\<rparr>) =
     Inr \<lparr>content = JStr [], unit_field = ''alpha'',
          raw_input_length = 2, raw_response = JObj [(''id'', JInt 7)]\<rparr>
   \<and> snd (chat_with_specific_unit [(''alpha'', ''sk-alpha-0123456789'')]
          (answering (Responded
             \<lparr>status_code = 200, response_text = ''...'',
              response_json = Inr (JObj [(''choices'', JArr [])])\<rparr>))
          ''alpha'' \<lparr>text = ''hi'', token_watchlist = None\<rparr>) =
     Inr \<lparr>content = JStr [], unit_field = ''alpha'',
          raw_input_length = 2, raw_response = JObj [(''choices'', JArr [])]\<rparr>
   \<and> snd (chat_with_specific_unit [(''alpha'', ''sk-alpha-0123456789'')]
          (answering (Responded
             \<lparr>status_code = 200, response_text = ''...'',
              response_json = Inr (JObj [(''choices'', JArr [JObj [(''index'', JInt 0)]])])\<rparr>))
          ''alpha'' \<lparr>text = ''hi'', token_watchlist = None\<rparr>) =
     Inr \<lparr>content = JStr [], unit_field = ''alpha'', raw_input_length = 2,
          raw_response = JObj [(''choices'', JArr [JObj [(''index'', JInt 0)]])]\<rparr>
   \<and> snd (chat_with_specific_unit [(''alpha'', ''sk-alpha-0123456789'')]
          (answering (Responded
             \<lparr>status_code = 200, response_text = ''...'',
              response_json =
                Inr (JObj [(''choices'',
                           JArr [JObj [(''message'', JObj [(''role'', JStr ''assistant'')])]])])\<rparr>))
          ''alpha'' \<lparr>text = ''hi'', token_watchlist = None\<rparr>) =
     Inr \<lparr>content = JStr [], unit_field = ''alpha'', raw_input_length = 2,
          raw_response =
            JObj [(''choices'',
                   JArr [JObj [(''message'', JObj [(''role'', JStr ''assistant'')])]])]\<rparr>"
  using
    missing_key_gives_empty_content[of "[(''alpha'', ''sk-alpha-0123456789'')]" "''alpha''"
      "''sk-alpha-0123456789''"
      "answering (Responded
             \<lparr>status_code = 200, response_text = ''...'',
              response_json = Inr (JObj [(''id'', JInt 7)])\<rparr>)"
      "\<lparr>text = ''hi'', token_watchlist = None\<rparr>"
      "\<lparr>status_code = 200, response_text = ''...'',
        response_json = Inr (JObj [(''id'', JInt 7)])\<rparr>"
      "[(''id'', JInt 7)]"]
    missing_key_gives_empty_content[of "[(''alpha'', ''sk-alpha-0123456789'')]" "''alpha''"
      "''sk-alpha-0123456789''"
      "answering (Responded
             \<lparr>status_code = 200, response_text = ''...'',
              response_json = Inr (JObj [(''choices'', JArr [])])\<rparr>)"
      "\<lparr>text = ''hi'', token_watchlist = None\<rparr>"
      "\<lparr>status_code = 200, response_text = ''...'',
        response_json = Inr (JObj [(''choices'', JArr [])])\<rparr>"
      "[(''choices'', JArr [])]"]
    missing_key_gives_empty_content[of "[(''alpha'', ''sk-alpha-0123456789'')]" "''alpha''"
      "''sk-alpha-0123456789''"
      "answering (Responded
             \<lparr>status_code = 200, response_text = ''...'',
              response_json = Inr (JObj [(''choices'', JArr [JObj [(''index'', JInt 0)]])])\<rparr>)"
      "\<lparr>text = ''hi'', token_watchlist = None\<rparr>"
      "\<lparr>status_code = 200, response_text = ''...'',
        response_json = Inr (JObj [(''choices'', JArr [JObj [(''index'', JInt 0)]])])\<rparr>"
      "[(''choices'', JArr [JObj [(''index'', JInt 0)]])]"]
    missing_key_gives_empty_content[of "[(''alpha'', ''sk-alpha-0123456789'')]" "''alpha''"
      "''sk-alpha-0123456789''"
      "answering (Responded
             \<lparr>status_code = 200, response_text = ''...'',
              response_json =
                Inr (JObj [(''choices'',
                           JArr [JObj [(''message'', JObj [(''role'', JStr ''assistant'')])]])])\<rparr>)"
      "\<lparr>text = ''hi'', token_watchlist = None\<rparr>"
      "\<lparr>status_code = 200, response_text = ''...'',
        response_json =
          Inr (JObj [(''choices'',
                     JArr [JObj [(''message'', JObj [(''role'', JStr ''assistant'')])]])])\<rparr>"
      "[(''choices'', JArr [JObj [(''message'', JObj [(''role'', JStr ''assistant'')])]])]"]
  by (simp add: answering_def)



text \<open>
  C4.  For every unit identifier that is not in the registry, the handler sends nothing and
  fails with status 404; the detail names the requested identifier and lists the
  identifiers of the registry, in its order, as Python prints a list of strings.  The
  detail is built from the identifiers alone, so it holds no credential.
\<close>

theorem unknown_unit_gives_404:
  assumes "unit_id \<notin> set (map fst agents)"
  shows "chat_with_specific_unit agents client_post unit_id q =
     ([], Inl (HTTPException 404
                 (Text (''REI unit '' @ [CHR 0x27] @ unit_id @ [CHR 0x27]
                        @ '' not found. Available units: '' @ repr_list (map fst agents)))))"
  using assms by (simp add: chat_unknown unit_not_found_detail_def)

theorem unknown_unit_gives_404_witness:
  "''gamma'' \<notin> set (map fst [(''alpha'', ''sk-alpha-0123456789''), (''beta'', ''sk-beta-9876'')]) \<and>
   chat_with_specific_unit [(''alpha'', ''sk-alpha-0123456789''), (''beta'', ''sk-beta-9876'')]
      (answering Raises_ReadTimeout) ''gamma'' \<lparr>text = ''hi'', token_watchlist = None\<rparr> =
     ([], Inl (HTTPException 404
        (Text (''REI unit '' @ [CHR 0x27] @ ''gamma'' @ [CHR 0x27]
            @ '' not found. Available units: ['' @ [CHR 0x27] @ ''alpha'' @ [CHR 0x27]
            @ '', '' @ [CHR 0x27] @ ''beta'' @ [CHR 0x27] @ '']''))))"
  using unknown_unit_gives_404[of "''gamma''"
      "[(''alpha'', ''sk-alpha-0123456789''), (''beta'', ''sk-beta-9876'')]"
      "answering Raises_ReadTimeout" "\<lparr>text = ''hi'', token_watchlist = None\<rparr>"]
  by (simp add: repr_list_def repr_str_def repr_char_def is_printable_def Let_def)

text \<open>
  C5, as stated, fails: for an upstream status other than 401, 404 and 200 the detail is not
  the raw body of the upstream response.  Upstream status 500 with body \<open>boom\<close> gives the
  detail \<open>API error: boom\<close>.
\<close>

theorem upstream_detail_counterexample:
  "snd (chat_with_specific_unit [(''alpha'', ''sk-alpha-0123456789'')]
          (answering (Responded \<lparr>status_code = 500, response_text = ''boom'',
                                  response_json = Inl ''Expecting value''\<rparr>))
          ''alpha'' \<lparr>text = ''hi'', token_watchlist = None\<rparr>) \<noteq>
     Inl (HTTPException 500 (Text ''boom''))"
  by (simp add: chat_with_specific_unit_def try_body_def answering_def after_post_def)

text \<open>
  C5, amended.  The status code of the upstream response is tested in order, the first
  match deciding: 401 gives 401 with the detail \<open>Unauthorized\<close>; 404 gives 404 with the
  detail \<open>Agent not found\<close>, which is never the unit-not-found detail; any other status
  that is not 200 gives the same status with the detail \<open>API error:\<close> followed by the raw
  text of the upstream response; only status 200 goes on to decode the body.
\<close>

theorem upstream_status_dispatch:
  assumes "map_of agents unit_id = Some secret"
    and "client_post (outgoing_request secret (text q)) = Responded response"
  shows "(status_code response = 401 \<longrightarrow>
            snd (chat_with_specific_unit agents client_post unit_id q) =
              Inl (HTTPException 401 (Text ''Unauthorized'')))
       \<and> (status_code response = 404 \<longrightarrow>
            snd (chat_with_specific_unit agents client_post unit_id q) =
              Inl (HTTPException 404 (Text ''Agent not found''))
            \<and> Text ''Agent not found'' \<noteq> Text (unit_not_found_detail unit_id (map fst agents)))
       \<and> (status_code response \<notin> {401, 404, 200} \<longrightarrow>
            snd (chat_with_specific_unit agents client_post unit_id q) =
              Inl (HTTPException (status_code response)
                     (Text (''API error: '' @ response_text response))))
       \<and> (status_code response = 200 \<longrightarrow>
            snd (chat_with_specific_unit agents client_post unit_id q) =
              (case response_json response of
                 Inl description \<Rightarrow> Inl (HTTPException 500 (Str_of (Raised description)))
               | Inr response_data \<Rightarrow>
                   (case extract_content response_data of
                      Inl e \<Rightarrow> Inl (HTTPException 500 (Str_of e))
                    | Inr c \<Rightarrow>
                        (case py_len c of
                           Inl e \<Rightarrow> Inl (HTTPException 500 (Str_of e))
                         | Inr n \<Rightarrow>
                             Inr \<lparr>content = c, unit_field = unit_id,
                                  raw_input_length = length (text q),
                                  raw_response = response_data\<rparr>))))"
  using assms(2)
  by (simp add: chat_known[OF assms(1)] after_post_def unit_not_found_detail_def
      split: sum.splits)

theorem upstream_status_dispatch_witness:
  "snd (chat_with_specific_unit [(''alpha'', ''sk-alpha-0123456789'')]
          (answering (Responded \<lparr>status_code = 401, response_text = ''denied'',
                                  response_json = Inl ''Expecting value''\<rparr>))
          ''alpha'' \<lparr>text = ''hi'', token_watchlist = None\<rparr>) =
     Inl (HTTPException 401 (Text ''Unauthorized''))
   \<and> snd (chat_with_specific_unit [(''alpha'', ''sk-alpha-0123456789'')]
          (answering (Responded \<lparr>status_code = 404, response_text = ''no agent'',
                                  response_json = Inl ''Expecting value''\<rparr>))
          ''alpha'' \<lparr>text = ''hi'', token_watchlist = None\<rparr>) =
     Inl (HTTPException 404 (Text ''Agent not found''))
   \<and> snd (chat_with_specific_unit [(''alpha'', ''sk-alpha-0123456789'')]
          (answering (Responded \<lparr>status_code = 503, response_text = ''busy'',
                                  response_json = Inl ''Expecting value''\<rparr>))
          ''alpha'' \<lparr>text = ''hi'', token_watchlist = None\<rparr>) =
     Inl (HTTPException 503 (Text ''API error: busy''))
   \<and> snd (chat_with_specific_unit [(''alpha'', ''sk-alpha-0123456789'')]
          (answering (Responded \<lparr>status_code = 200, response_text = ''not json'',
                                  response_json = Inl ''Expecting value''\<rparr>))
          ''alpha'' \<lparr>text = ''hi'', token_watchlist = None\<rparr>) =
     Inl (HTTPException 500 (Str_of (Raised ''Expecting value'')))"
  using
    upstream_status_dispatch[of "[(''alpha'', ''sk-alpha-0123456789'')]" "''alpha''"
      "''sk-alpha-0123456789''"
      "answering (Responded \<lparr>status_code = 401, response_text = ''denied'',
                                  response_json = Inl ''Expecting value''\<rparr>)"
      "\<lparr>text = ''hi'', token_watchlist = None\<rparr>"
      "\<lparr>status_code = 401, response_text = ''denied'',
        response_json = Inl ''Expecting value''\<rparr>"]
    upstream_status_dispatch[of "[(''alpha'', ''sk-alpha-0123456789'')]" "''alpha''"
      "''sk-alpha-0123456789''"
      "answering (Responded \<lparr>status_code = 404, response_text = ''no agent'',
                                  response_json = Inl ''Expecting value''\<rparr>)"
      "\<lparr>text = ''hi'', token_watchlist = None\<rparr>"
      "\<lparr>status_code = 404, response_text = ''no agent'',
        response_json = Inl ''Expecting value''\<rparr>"]
    upstream_status_dispatch[of "[(''alpha'', ''sk-alpha-0123456789'')]" "''alpha''"
      "''sk-alpha-0123456789''"
      "answering (Responded \<lparr>status_code = 503, response_text = ''busy'',
                                  response_json = Inl ''Expecting value''\<rparr>)"
      "\<lparr>text = ''hi'', token_watchlist = None\<rparr>"
      "\<lparr>status_code = 503, response_text = ''busy'',
        response_json = Inl ''Expecting value''\<rparr>"]
    upstream_status_dispatch[of "[(''alpha'', ''sk-alpha-0123456789'')]" "''alpha''"
      "''sk-alpha-0123456789''"
      "answering (Responded \<lparr>status_code = 200, response_text = ''not json'',
                                  response_json = Inl ''Expecting value''\<rparr>)"
      "\<lparr>text = ''hi'', token_watchlist = None\<rparr>"
      "\<lparr>status_code = 200, response_text = ''not json'',
        response_json = Inl ''Expecting value''\<rparr>"]
  by (simp add: answering_def)

text \<open>
  C6, as stated, fails: 504 is not a code apart from the upstream-surfaced errors.  An
  upstream response with status 504 is passed on with status 504, the status that a read
  timeout is given.
\<close>

theorem timeout_status_counterexample:
  "snd (chat_with_specific_unit [(''alpha'', ''sk-alpha-0123456789'')]
          (answering (Responded \<lparr>status_code = 504, response_text = ''upstream down'',
                                  response_json = Inl ''Expecting value''\<rparr>))
          ''alpha'' \<lparr>text = ''hi'', token_watchlist = None\<rparr>) =
     Inl (HTTPException 504 (Text ''API error: upstream down''))
   \<and> snd (chat_with_specific_unit [(''alpha'', ''sk-alpha-0123456789'')]
          (answering Raises_ReadTimeout)
          ''alpha'' \<lparr>text = ''hi'', token_watchlist = None\<rparr>) =
     Inl (HTTPException 504 (Text timeout_detail))"
  by (simp add: chat_with_specific_unit_def try_body_def answering_def after_post_def)

text \<open>
  C6, amended.  When the request raises a read timeout, the handler has sent its one
  request and fails with status 504 and a fixed detail that says the API took too long
  and to check back later; the timeout given to the client is the constant 3000 seconds,
  that is 50 minutes.  The status 504 can also come from upstream, but the result of a
  read timeout differs from the result of every call on which upstream responded.
\<close>

theorem read_timeout_gives_504:
  assumes "map_of agents unit_id = Some secret"
    and "client_post (outgoing_request secret (text q)) = Raises_ReadTimeout"
  shows "chat_with_specific_unit agents client_post unit_id q =
           ([outgoing_request secret (text q)],
            Inl (HTTPException 504
                   (Text ''The REI API took too long to respond (over 50 minutes). Try a simpler query or check back later.'')))
       \<and> timeout (outgoing_request secret (text q)) = 50 * 60
       \<and> (\<forall>other response. other (outgoing_request secret (text q)) = Responded response \<longrightarrow>
             snd (chat_with_specific_unit agents other unit_id q) \<noteq>
             snd (chat_with_specific_unit agents client_post unit_id q))"
proof -
  have a: "chat_with_specific_unit agents client_post unit_id q =
           ([outgoing_request secret (text q)], Inl (HTTPException 504 (Text timeout_detail)))"
    using assms(2) by (simp add: chat_known[OF assms(1)])
  have b: "timeout (outgoing_request secret (text q)) = 50 * 60"
    by (simp add: outgoing_request_def)
  have c: "snd (chat_with_specific_unit agents other unit_id q) \<noteq>
           Inl (HTTPException 504 (Text timeout_detail))"
    if "other (outgoing_request secret (text q)) = Responded response" for other response
  proof
    assume "snd (chat_with_specific_unit agents other unit_id q) =
            Inl (HTTPException 504 (Text timeout_detail))"
    then have "(case after_post unit_id (text q) response of
                  Inl r \<Rightarrow> Inl (except_clauses r) | Inr final \<Rightarrow> Inr final) =
               Inl (HTTPException 504 (Text timeout_detail))"
      using that by (simp add: chat_known[OF assms(1)])
    then obtain x where x: "after_post unit_id (text q) response = Inl x"
        "except_clauses x = HTTPException 504 (Text timeout_detail)"
      by (cases "after_post unit_id (text q) response") auto
    from after_post_Inl[OF x(1)] x(2) show False
      by (auto simp: timeout_detail_def)
  qed
  show ?thesis using a b c by (simp add: timeout_detail_def)
qed

theorem read_timeout_gives_504_witness:
  "chat_with_specific_unit [(''alpha'', ''sk-alpha-0123456789'')]
      (answering Raises_ReadTimeout) ''alpha'' \<lparr>text = ''hi'', token_watchlist = None\<rparr> =
     ([outgoing_request ''sk-alpha-0123456789'' ''hi''],
      Inl (HTTPException 504
             (Text ''The REI API took too long to respond (over 50 minutes). Try a simpler query or check back later.'')))
   \<and> timeout (outgoing_request ''sk-alpha-0123456789'' ''hi'') = 3000"
  using read_timeout_gives_504[of "[(''alpha'', ''sk-alpha-0123456789'')]" "''alpha''"
      "''sk-alpha-0123456789''" "answering Raises_ReadTimeout"
      "\<lparr>text = ''hi'', token_watchlist = None\<rparr>"]
  by (simp add: answering_def)



text \<open>
  A content that has no length (\<open>null\<close>, a number, a boolean) is not returned: the summary
  line that is logged before the return takes \<open>len(content)\<close>, which raises.
\<close>

lemma content_without_length_example:
  "snd (chat_with_specific_unit [(''alpha'', ''sk-alpha-0123456789'')]
          (answering (Responded
             \<lparr>status_code = 200, response_text = ''...'',
              response_json =
                Inr (JObj [(''choices'',
                           JArr [JObj [(''message'', JObj [(''content'', JNull)])]])])\<rparr>))
          ''alpha'' \<lparr>text = ''hi'', token_watchlist = None\<rparr>) =
     Inl (HTTPException 500 (Str_of (TypeError_has_no_len JNull)))"
  by (simp add: chat_with_specific_unit_def try_body_def answering_def after_post_def
      extract_content_def first_choice_content_def)

section \<open>Claims about the read-only endpoints and the registry\<close>

text \<open>
  C8.  The units endpoint returns the list of configured unit identifiers and their
  number; the number is the length of the list, and for the registry loaded from any
  environment it is the number of distinct identifiers; with an empty registry the
  response is \<open>{"units": [], "count": 0}\<close>.  The registry is left as it was.
\<close>

theorem list_available_units_response:
  "list_available_units agents =
     (\<lparr>units = map fst agents, count = length agents\<rparr>, agents)
   \<and> count (fst (list_available_units agents)) =
       length (units (fst (list_available_units agents)))
   \<and> count (fst (list_available_units (rei_agents environ))) =
       card (set (units (fst (list_available_units (rei_agents environ)))))
   \<and> list_available_units [] = (\<lparr>units = [], count = 0\<rparr>, [])
   \<and> snd (list_available_units agents) = agents"
  using distinct_card[OF rei_agents_distinct[of environ]]
  by (simp add: list_available_units_def)

theorem list_available_units_response_witness:
  "list_available_units [(''alpha'', ''sk-alpha-0123456789''), (''beta'', ''sk-beta-9876'')] =
     (\<lparr>units = [''alpha'', ''beta''], count = 2\<rparr>,
      [(''alpha'', ''sk-alpha-0123456789''), (''beta'', ''sk-beta-9876'')])"
  using list_available_units_response[of
      "[(''alpha'', ''sk-alpha-0123456789''), (''beta'', ''sk-beta-9876'')]" "[]"]
  by simp

text \<open>
  C9.  The health endpoint returns \<open>{"status": "healthy", "units_configured": n}\<close> with
  \<open>n\<close> the number of configured units, for every registry, the empty one included, and
  leaves the registry as it was.
\<close>

theorem health_check_response:
  "health_check agents =
     (\<lparr>status = ''healthy'', units_configured = length agents\<rparr>, agents)
   \<and> status (fst (health_check agents)) = ''healthy''
   \<and> health_check [] = (\<lparr>status = ''healthy'', units_configured = 0\<rparr>, [])"
  by (simp add: health_check_def)

theorem health_check_response_witness:
  "health_check [(''alpha'', ''sk-alpha-0123456789''), (''beta'', ''sk-beta-9876'')] =
     (\<lparr>status = ''healthy'', units_configured = 2\<rparr>,
      [(''alpha'', ''sk-alpha-0123456789''), (''beta'', ''sk-beta-9876'')])"
  using health_check_response[of
      "[(''alpha'', ''sk-alpha-0123456789''), (''beta'', ''sk-beta-9876'')]"]
  by simp



end
